theory Spec2Isabelle
  imports Main "HOL-Library.Word"
begin

section \<open>Python values, exceptions and the string operations used by the plugin\<close>

text \<open>
  The module \<^verbatim>\<open>ape_polygon_zkevm/ecosystem.py\<close> works on dynamically typed keyword
  arguments. The values it inspects are \<^verbatim>\<open>None\<close>, integers, strings and byte
  sequences; the one object it builds itself is a \<^verbatim>\<open>TransactionSignature(v, r, s)\<close>.
  A Python \<^verbatim>\<open>str\<close> is modelled as a \<^typ>\<open>string\<close> whose characters are code points
  below 256, a \<^verbatim>\<open>bytes\<close> object as a list of 8-bit words, an \<^verbatim>\<open>int\<close> as an
  unbounded \<^typ>\<open>int\<close>.
\<close>

type_synonym byte = "8 word"

datatype pyval =
    NoneV
  | IntV int
  | StrV string
  | BytesV "byte list"
  | TransactionSignature pyval "byte list" "byte list"

text \<open>
  Exceptions are values. \<open>ValueError\<close>, \<open>TypeError\<close>, \<open>OverflowError\<close> and
  \<open>AttributeError\<close> are Python's built-in exceptions, \<open>ApePolygonZkEVMError\<close> (line 20 of
  the source) carries its message, and \<open>ValidationError\<close> stands for what the classes of the
  framework raise when they reject their arguments.
\<close>

datatype error =
    ValueError
  | TypeError
  | OverflowError
  | AttributeError
  | ApePolygonZkEVMError string
  | ValidationError

text \<open>Python truthiness: \<^verbatim>\<open>not x\<close>.\<close>

fun falsy :: "pyval \<Rightarrow> bool" where
  "falsy NoneV = True"
| "falsy (IntV n) = (n = 0)"
| "falsy (StrV s) = (s = [])"
| "falsy (BytesV b) = (b = [])"
| "falsy (TransactionSignature v r s) = False"

text \<open>\<^verbatim>\<open>str(n)\<close> of an integer, as the f-string \<^verbatim>\<open>f"0{_type}"\<close> formats it: decimal digits,
  with a minus sign for a negative number.\<close>

definition digit_char :: "nat \<Rightarrow> char" where
  "digit_char d = ''0123456789abcdef'' ! d"

fun str_nat :: "nat \<Rightarrow> string" where
  "str_nat n = (if n < 10 then [digit_char n] else str_nat (n div 10) @ [digit_char (n mod 10)])"

declare str_nat.simps [simp del]

definition str_int :: "int \<Rightarrow> string" where
  "str_int i = (if i < 0 then CHR ''-'' # str_nat (nat (- i)) else str_nat (nat i))"

text \<open>\<^verbatim>\<open>bytes.hex()\<close>: two lower-case hexadecimal digits for every byte.\<close>

definition hex_byte :: "byte \<Rightarrow> string" where
  "hex_byte b = [digit_char (unat b div 16), digit_char (unat b mod 16)]"

definition bytes_hex :: "byte list \<Rightarrow> string" where
  "bytes_hex bs = concat (map hex_byte bs)"

text \<open>\<^verbatim>\<open>s.replace(old, new)\<close> for a non-empty \<open>old\<close>: every occurrence, found from left to
  right without overlap, is replaced.\<close>

function str_replace :: "string \<Rightarrow> string \<Rightarrow> string \<Rightarrow> string" where
  "str_replace [] old new = []"
| "str_replace (c # cs) old new =
     (if old \<noteq> [] \<and> take (length old) (c # cs) = old
      then new @ str_replace (drop (length old) (c # cs)) old new
      else c # str_replace cs old new)"
  by pat_completeness auto
termination
  by (relation "measure (\<lambda>(s, old, new). length s)") auto

text \<open>\<^verbatim>\<open>s.rstrip(chars)\<close>: the trailing characters that occur in \<open>chars\<close> are removed.\<close>

definition rstrip :: "string \<Rightarrow> string \<Rightarrow> string" where
  "rstrip s chars = rev (dropWhile (\<lambda>c. c \<in> set chars) (rev s))"

text \<open>\<^verbatim>\<open>eth_utils.add_0x_prefix\<close>: a value that starts with \<^verbatim>\<open>0x\<close> or \<^verbatim>\<open>0X\<close> is returned
  as it is, any other value gets \<^verbatim>\<open>0x\<close> in front.\<close>

definition is_0x_prefixed :: "string \<Rightarrow> bool" where
  "is_0x_prefixed v = (take 2 v = ''0x'' \<or> take 2 v = ''0X'')"

definition add_0x_prefix :: "string \<Rightarrow> string" where
  "add_0x_prefix v = (if is_0x_prefixed v then v else ''0x'' @ v)"

section \<open>The enumeration \<open>TransactionType\<close>\<close>

text \<open>
  \<^verbatim>\<open>TransactionType\<close> is imported from \<^verbatim>\<open>ape_ethereum.transactions\<close>; its declaration is
  not part of this repository. The functions below take it as a parameter \<open>E\<close>: the type
  \<open>'t\<close> of its members, the member \<^verbatim>\<open>TransactionType.STATIC\<close>, the call
  \<^verbatim>\<open>TransactionType(v)\<close> (the member whose value is \<open>v\<close>, if there is one), the attribute
  \<^verbatim>\<open>.value\<close> of a member, and the text \<^verbatim>\<open>str(member)\<close> that an f-string prints.
\<close>

record 't TransactionType_enum =
  STATIC :: 't
  by_value :: "pyval \<Rightarrow> 't option"
  member_value :: "'t \<Rightarrow> pyval"
  member_str :: "'t \<Rightarrow> string"

text \<open>The call \<^verbatim>\<open>TransactionType(v)\<close> raises \<open>ValueError\<close> when no member has the value.\<close>

definition TransactionType_call :: "'t TransactionType_enum \<Rightarrow> pyval \<Rightarrow> error + 't" where
  "TransactionType_call E v = (case by_value E v of None \<Rightarrow> Inl ValueError | Some t \<Rightarrow> Inr t)"

text \<open>
  Two declarations for evaluating the model on concrete inputs. The first is the one of
  \<^verbatim>\<open>ape_ethereum\<close>, whose members have integer values: \<^verbatim>\<open>STATIC = 0\<close>,
  \<^verbatim>\<open>ACCESS_LIST = 1\<close>, \<^verbatim>\<open>DYNAMIC = 2\<close>. No string is the value of a member there, so the
  call of line 109, whose argument is always a string, raises for every argument.
\<close>

datatype ape_tag = TT_STATIC | TT_ACCESS_LIST | TT_DYNAMIC

fun ape_tag_value :: "ape_tag \<Rightarrow> pyval" where
  "ape_tag_value TT_STATIC = IntV 0"
| "ape_tag_value TT_ACCESS_LIST = IntV 1"
| "ape_tag_value TT_DYNAMIC = IntV 2"

fun ape_tag_str :: "ape_tag \<Rightarrow> string" where
  "ape_tag_str TT_STATIC = ''TransactionType.STATIC''"
| "ape_tag_str TT_ACCESS_LIST = ''TransactionType.ACCESS_LIST''"
| "ape_tag_str TT_DYNAMIC = ''TransactionType.DYNAMIC''"

definition ape_tag_by_value :: "pyval \<Rightarrow> ape_tag option" where
  "ape_tag_by_value v =
     (if v = IntV 0 then Some TT_STATIC
      else if v = IntV 1 then Some TT_ACCESS_LIST
      else if v = IntV 2 then Some TT_DYNAMIC
      else None)"

definition ape_TransactionType :: "ape_tag TransactionType_enum" where
  "ape_TransactionType =
     \<lparr>STATIC = TT_STATIC, by_value = ape_tag_by_value,
      member_value = ape_tag_value, member_str = ape_tag_str\<rparr>"

text \<open>
  The second is an enumeration with the same members whose values are the strings that
  line 109 builds: \<^verbatim>\<open>"0x00"\<close>, \<^verbatim>\<open>"0x01"\<close>, \<^verbatim>\<open>"0x02"\<close>. It is the case in which a
  lookup by string can succeed.
\<close>

fun hex_tag_value :: "ape_tag \<Rightarrow> pyval" where
  "hex_tag_value TT_STATIC = StrV ''0x00''"
| "hex_tag_value TT_ACCESS_LIST = StrV ''0x01''"
| "hex_tag_value TT_DYNAMIC = StrV ''0x02''"

definition hex_tag_by_value :: "pyval \<Rightarrow> ape_tag option" where
  "hex_tag_by_value v =
     (if v = StrV ''0x00'' then Some TT_STATIC
      else if v = StrV ''0x01'' then Some TT_ACCESS_LIST
      else if v = StrV ''0x02'' then Some TT_DYNAMIC
      else None)"

definition hex_TransactionType :: "ape_tag TransactionType_enum" where
  "hex_TransactionType =
     \<lparr>STATIC = TT_STATIC, by_value = hex_tag_by_value,
      member_value = hex_tag_value, member_str = ape_tag_str\<rparr>"

section \<open>Type resolution: \<open>_get_transaction_type\<close> (lines 94-109)\<close>

text \<open>
  \<open>type_key\<close> is the string handed to \<^verbatim>\<open>TransactionType(...)\<close> on line 109, computed by
  lines 98-107 for an argument that passed the test of line 95. The branch of line 98
  (\<^verbatim>\<open>_type is None\<close>) cannot be reached after line 95; it is kept as the source has it.
  An argument that is no string after lines 98-103 has no method \<^verbatim>\<open>replace\<close> taking
  strings, so line 105 raises.
\<close>

definition pad_single_digit :: "string \<Rightarrow> string" where
  "pad_single_digit ty =
     (let suffix = str_replace ty ''0x'' ''''
      in if length suffix = 1 then rstrip ty suffix @ ''0'' @ suffix else ty)"

definition type_key :: "'t TransactionType_enum \<Rightarrow> pyval \<Rightarrow> error + string" where
  "type_key E ty =
     (let ty1 = (case ty of
                   NoneV \<Rightarrow> member_value E (STATIC E)
                 | IntV n \<Rightarrow> StrV (''0'' @ str_int n)
                 | BytesV b \<Rightarrow> StrV (bytes_hex b)
                 | _ \<Rightarrow> ty)
      in case ty1 of
           StrV s \<Rightarrow> Inr (add_0x_prefix (pad_single_digit s))
         | BytesV b \<Rightarrow> Inl TypeError
         | _ \<Rightarrow> Inl AttributeError)"

definition get_transaction_type :: "'t TransactionType_enum \<Rightarrow> pyval \<Rightarrow> error + 't" where
  "get_transaction_type E ty =
     (if falsy ty then Inr (STATIC E)
      else case type_key E ty of
             Inl e \<Rightarrow> Inl e
           | Inr k \<Rightarrow> TransactionType_call E (StrV k))"

section \<open>Class selection: \<open>_get_transaction_cls\<close> (lines 112-118)\<close>

text \<open>
  The result type \<^verbatim>\<open>Type[TransactionAPI]\<close> ranges over transaction classes; the only one
  the module names is \<^verbatim>\<open>StaticFeeTransaction\<close>. The dictionary \<open>transaction_types\<close> has
  the single key \<^verbatim>\<open>TransactionType.STATIC\<close>.
\<close>

datatype txn_class = StaticFeeTransaction | OtherTransactionClass string

definition transaction_types :: "'t TransactionType_enum \<Rightarrow> ('t \<rightharpoonup> txn_class)" where
  "transaction_types E = [STATIC E \<mapsto> StaticFeeTransaction]"

definition not_supported_message :: "string \<Rightarrow> string" where
  "not_supported_message tag = ''Transaction type '' @ [CHR 0x27] @ tag @ [CHR 0x27] @ '' not supported.''"

definition get_transaction_cls :: "'t TransactionType_enum \<Rightarrow> 't \<Rightarrow> error + txn_class" where
  "get_transaction_cls E transaction_type =
     (case transaction_types E transaction_type of
        None \<Rightarrow> Inl (ApePolygonZkEVMError (not_supported_message (member_str E transaction_type)))
      | Some cls \<Rightarrow> Inr cls)"

section \<open>The built-ins \<open>int(s, 16)\<close> and \<open>bytes(x)\<close>\<close>

text \<open>
  \<^verbatim>\<open>int(s, 16)\<close> as CPython parses it: white space around the number is skipped, a sign
  and a prefix \<^verbatim>\<open>0x\<close> or \<^verbatim>\<open>0X\<close> are optional, single underscores may separate digits
  (one may follow the prefix), and at least one digit is required. Anything else raises
  \<open>ValueError\<close>.
\<close>

definition is_space :: "char \<Rightarrow> bool" where
  "is_space c = (c \<in> set [CHR 0x09, CHR 0x0A, CHR 0x0B, CHR 0x0C, CHR 0x0D, CHR 0x20, CHR 0x85, CHR 0xA0])"

definition hex_digit_value :: "char \<Rightarrow> nat option" where
  "hex_digit_value c =
     map_of (zip ''0123456789abcdef'' [0..<16] @ zip ''ABCDEF'' [10..<16]) c"

fun scan_hex :: "bool \<Rightarrow> int \<Rightarrow> string \<Rightarrow> (int \<times> string) option" where
  "scan_hex prev_underscore acc [] = (if prev_underscore then None else Some (acc, []))"
| "scan_hex prev_underscore acc (c # cs) =
     (if c = CHR ''_'' then (if prev_underscore then None else scan_hex True acc cs)
      else case hex_digit_value c of
             Some d \<Rightarrow> scan_hex False (16 * acc + int d) cs
           | None \<Rightarrow> (if prev_underscore then None else Some (acc, c # cs)))"

definition int_base16 :: "string \<Rightarrow> error + int" where
  "int_base16 s =
     (let s1 = dropWhile is_space s;
          negative = (take 1 s1 = ''-'');
          s2 = (if take 1 s1 = ''+'' \<or> take 1 s1 = ''-'' then drop 1 s1 else s1);
          s3 = (if take 2 s2 = ''0x'' \<or> take 2 s2 = ''0X''
                then (if take 1 (drop 2 s2) = ''_'' then drop 3 s2 else drop 2 s2)
                else s2)
      in if take 1 s3 = ''_'' then Inl ValueError
         else case scan_hex False 0 s3 of
                None \<Rightarrow> Inl ValueError
              | Some (n, rest) \<Rightarrow>
                  if length rest = length s3 then Inl ValueError
                  else if dropWhile is_space rest \<noteq> [] then Inl ValueError
                  else Inr (if negative then - n else n))"

text \<open>
  \<^verbatim>\<open>bytes(x)\<close>: a byte sequence is copied; an integer \<open>n\<close> is a size, which raises
  \<open>OverflowError\<close> when it does not fit a signed 64-bit index (\<open>n < - 2^63\<close> or
  \<open>2^63 \<le> n\<close>), raises \<open>ValueError\<close> when it is negative, and gives \<open>n\<close> zero bytes
  otherwise; a string or \<^verbatim>\<open>None\<close> raises \<open>TypeError\<close>. A \<^verbatim>\<open>TransactionSignature\<close> is
  iterated as \<open>v, r, s\<close>: the items must be integers below 256, and \<open>r\<close> is not an integer.
  (The zero bytes are taken to be allocated: running out of memory is outside the model.)
\<close>

fun py_bytes :: "pyval \<Rightarrow> error + byte list" where
  "py_bytes (BytesV b) = Inr b"
| "py_bytes (IntV n) =
     (if n < - (2 ^ 63) \<or> 2 ^ 63 \<le> n then Inl OverflowError
      else if n < 0 then Inl ValueError
      else Inr (replicate (nat n) 0))"
| "py_bytes (StrV s) = Inl TypeError"
| "py_bytes NoneV = Inl TypeError"
| "py_bytes (TransactionSignature v r s) =
     (case v of
        IntV n \<Rightarrow> if 0 \<le> n \<and> n < 256 then Inl TypeError else Inl ValueError
      | _ \<Rightarrow> Inl TypeError)"

section \<open>Transaction construction: \<open>create_transaction\<close> (lines 54-91)\<close>

text \<open>
  The keyword arguments are a dictionary from field names to values. The active provider
  of the network manager is ambient state that the method only reads: \<open>None\<close> when no
  provider is connected, \<open>Some rc\<close> when one is, \<open>rc\<close> being
  \<^verbatim>\<open>active_provider.network.required_confirmations\<close>. The class method \<^verbatim>\<open>parse_obj\<close>
  belongs to the transaction classes of \<^verbatim>\<open>ape_ethereum\<close>, and the class
  \<^verbatim>\<open>TransactionSignature\<close> to \<^verbatim>\<open>ape.types\<close>: both are parameters. The call
  \<^verbatim>\<open>TransactionSignature(v=..., r=..., s=...)\<close> is the parameter \<open>new_signature\<close>; it
  returns the signature object or raises, since the class validates (and may convert) \<open>v\<close>.
\<close>

type_synonym kwargs = "string \<rightharpoonup> pyval"

text \<open>\<^verbatim>\<open>kwargs.get(key)\<close>\<close>

definition dict_get :: "kwargs \<Rightarrow> string \<Rightarrow> pyval" where
  "dict_get kw k = (case kw k of None \<Rightarrow> NoneV | Some v \<Rightarrow> v)"

text \<open>Lines 69-76.\<close>

definition set_required_confirmations :: "int option \<Rightarrow> kwargs \<Rightarrow> kwargs" where
  "set_required_confirmations active_provider kw =
     (if ''required_confirmations'' \<notin> dom kw \<or> kw ''required_confirmations'' = Some NoneV
      then (let required_confirmations = (case active_provider of None \<Rightarrow> 0 | Some rc \<Rightarrow> rc)
            in kw(''required_confirmations'' \<mapsto> IntV required_confirmations))
      else kw)"

text \<open>Lines 78-79.\<close>

definition parse_chain_id :: "kwargs \<Rightarrow> error + kwargs" where
  "parse_chain_id kw =
     (case dict_get kw ''chainId'' of
        StrV s \<Rightarrow> (case int_base16 s of
                     Inl e \<Rightarrow> Inl e
                   | Inr n \<Rightarrow> Inr (kw(''chainId'' \<mapsto> IntV n)))
      | _ \<Rightarrow> Inr kw)"

text \<open>Lines 81-82: \<^verbatim>\<open>kwargs["data"] = kwargs.pop("hash")\<close>.\<close>

definition hash_to_data :: "kwargs \<Rightarrow> kwargs" where
  "hash_to_data kw =
     (case kw ''hash'' of
        None \<Rightarrow> kw
      | Some h \<Rightarrow> (kw(''hash'' := None))(''data'' \<mapsto> h))"

text \<open>Lines 84-89. The arguments of \<^verbatim>\<open>TransactionSignature\<close> are evaluated in the order
  \<open>v\<close>, \<open>bytes(r)\<close>, \<open>bytes(s)\<close>, and the constructor is called last: an error of
  \<open>bytes(r)\<close> comes first, then one of \<open>bytes(s)\<close>, then one of the constructor. The field
  \<open>signature\<close> is written only when all of them succeed.\<close>

definition assemble_signature ::
  "(pyval \<Rightarrow> byte list \<Rightarrow> byte list \<Rightarrow> error + pyval) \<Rightarrow> kwargs \<Rightarrow> error + kwargs" where
  "assemble_signature new_signature kw =
     (case (kw ''v'', kw ''r'', kw ''s'') of
        (Some v, Some r, Some s) \<Rightarrow>
          (case py_bytes r of
             Inl e \<Rightarrow> Inl e
           | Inr rb \<Rightarrow>
               (case py_bytes s of
                  Inl e \<Rightarrow> Inl e
                | Inr sb \<Rightarrow>
                    (case new_signature v rb sb of
                       Inl e \<Rightarrow> Inl e
                     | Inr sig \<Rightarrow> Inr (kw(''signature'' \<mapsto> sig)))))
      | _ \<Rightarrow> Inr kw)"

text \<open>Lines 65-89: the class and the keyword arguments that line 91 hands to
  \<^verbatim>\<open>parse_obj\<close>.\<close>

definition normalize_kwargs ::
  "'t TransactionType_enum \<Rightarrow> (pyval \<Rightarrow> byte list \<Rightarrow> byte list \<Rightarrow> error + pyval) \<Rightarrow> int option
     \<Rightarrow> kwargs \<Rightarrow> error + (txn_class \<times> kwargs)" where
  "normalize_kwargs E new_signature active_provider kwargs =
     (case get_transaction_type E (dict_get kwargs ''type'') of
        Inl e \<Rightarrow> Inl e
      | Inr transaction_type \<Rightarrow>
          (let kw1 = kwargs(''type'' \<mapsto> member_value E transaction_type)
           in case get_transaction_cls E transaction_type of
                Inl e \<Rightarrow> Inl e
              | Inr txn_class \<Rightarrow>
                  (case parse_chain_id (set_required_confirmations active_provider kw1) of
                     Inl e \<Rightarrow> Inl e
                   | Inr kw3 \<Rightarrow>
                       (case assemble_signature new_signature (hash_to_data kw3) of
                          Inl e \<Rightarrow> Inl e
                        | Inr kw5 \<Rightarrow> Inr (txn_class, kw5)))))"

definition create_transaction ::
  "'t TransactionType_enum \<Rightarrow> (pyval \<Rightarrow> byte list \<Rightarrow> byte list \<Rightarrow> error + pyval)
     \<Rightarrow> (txn_class \<Rightarrow> kwargs \<Rightarrow> error + 'txn) \<Rightarrow> int option \<Rightarrow> kwargs \<Rightarrow> error + 'txn" where
  "create_transaction E new_signature parse_obj active_provider kwargs =
     (case normalize_kwargs E new_signature active_provider kwargs of
        Inl e \<Rightarrow> Inl e
      | Inr (txn_class, kw) \<Rightarrow> parse_obj txn_class kw)"

section \<open>Reference notions used in the statements\<close>

text \<open>
  The wording of the specification for an integer type: the hexadecimal digits of \<open>n\<close>,
  left-padded with zeros to two digits, behind the prefix \<^verbatim>\<open>0x\<close> (what Python prints
  for \<^verbatim>\<open>f"0x{n:02x}"\<close>). It is compared below with what line 101 computes.
\<close>

fun hex_nat :: "nat \<Rightarrow> string" where
  "hex_nat n = (if n < 16 then [digit_char n] else hex_nat (n div 16) @ [digit_char (n mod 16)])"

declare hex_nat.simps [simp del]

definition spec_zero_padded_hex :: "int \<Rightarrow> string" where
  "spec_zero_padded_hex n =
     (let sign = (if n < 0 then ''-'' else []);
          digits = hex_nat (nat \<bar>n\<bar>)
      in ''0x'' @ sign @ replicate (2 - (length sign + length digits)) CHR ''0'' @ digits)"

text \<open>The positional value of a string of hexadecimal digits, read from the left.\<close>

definition is_hex_digit :: "char \<Rightarrow> bool" where
  "is_hex_digit c = (hex_digit_value c \<noteq> None)"

fun hex_value :: "int \<Rightarrow> string \<Rightarrow> int" where
  "hex_value acc [] = acc"
| "hex_value acc (c # cs) =
     hex_value (16 * acc + (case hex_digit_value c of None \<Rightarrow> 0 | Some d \<Rightarrow> int d)) cs"

text \<open>
  A constructor for evaluating the model: it takes an integer \<open>v\<close> as it is and rejects any
  other value. (The class of \<^verbatim>\<open>ape.types\<close> also converts some other values to an integer;
  the statements below hold for every constructor.)
\<close>

definition integer_v_signature :: "pyval \<Rightarrow> byte list \<Rightarrow> byte list \<Rightarrow> error + pyval" where
  "integer_v_signature v r s =
     (case v of
        IntV n \<Rightarrow> Inr (TransactionSignature (IntV n) r s)
      | _ \<Rightarrow> Inl ValidationError)"

text \<open>Keyword arguments of a signed transaction, and what lines 65-89 make of them when no
  provider is active.\<close>

definition signed_kwargs :: kwargs where
  "signed_kwargs =
     [''chainId'' \<mapsto> StrV ''0x45'', ''v'' \<mapsto> IntV 27, ''r'' \<mapsto> BytesV [1, 2],
      ''s'' \<mapsto> BytesV [3]]"

definition string_signed_kwargs :: kwargs where
  "string_signed_kwargs =
     [''v'' \<mapsto> IntV 27, ''r'' \<mapsto> StrV ''0xab'', ''s'' \<mapsto> StrV ''0xcd'']"

definition signed_kwargs_normalized :: kwargs where
  "signed_kwargs_normalized =
     signed_kwargs(''type'' \<mapsto> IntV 0, ''required_confirmations'' \<mapsto> IntV 0,
       ''chainId'' \<mapsto> IntV 69, ''signature'' \<mapsto> TransactionSignature (IntV 27) [1, 2] [3])"

section \<open>Evaluation and frame lemmas\<close>

lemmas model_defs =
  create_transaction_def normalize_kwargs_def get_transaction_type_def get_transaction_cls_def
  transaction_types_def type_key_def pad_single_digit_def add_0x_prefix_def is_0x_prefixed_def
  TransactionType_call_def dict_get_def set_required_confirmations_def parse_chain_id_def
  hash_to_data_def assemble_signature_def ape_TransactionType_def ape_tag_by_value_def
  hex_TransactionType_def hex_tag_by_value_def integer_v_signature_def

lemma falsy_cases: "falsy ty \<longleftrightarrow> ty = NoneV \<or> ty = IntV 0 \<or> ty = StrV [] \<or> ty = BytesV []"
  by (cases ty) auto

lemma get_transaction_cls_Inr:
  "get_transaction_cls E t = Inr c \<longleftrightarrow> t = STATIC E \<and> c = StaticFeeTransaction"
  by (auto simp: get_transaction_cls_def transaction_types_def)

lemma get_transaction_cls_STATIC [simp]:
  "get_transaction_cls E (STATIC E) = Inr StaticFeeTransaction"
  by (simp add: get_transaction_cls_Inr)

text \<open>Each step of lines 69-89 writes only the fields it names.\<close>

lemma set_required_confirmations_other:
  "k \<noteq> ''required_confirmations'' \<Longrightarrow> set_required_confirmations ap kw k = kw k"
  by (simp add: set_required_confirmations_def Let_def)

lemma parse_chain_id_other:
  "parse_chain_id kw = Inr kw' \<Longrightarrow> k \<noteq> ''chainId'' \<Longrightarrow> kw' k = kw k"
  by (auto simp: parse_chain_id_def split: pyval.splits sum.splits)

lemma hash_to_data_other:
  "k \<noteq> ''hash'' \<Longrightarrow> k \<noteq> ''data'' \<Longrightarrow> hash_to_data kw k = kw k"
  by (simp add: hash_to_data_def split: option.splits)

lemma assemble_signature_other:
  "assemble_signature new_sig kw = Inr kw' \<Longrightarrow> k \<noteq> ''signature'' \<Longrightarrow> kw' k = kw k"
  by (auto simp: assemble_signature_def split: option.splits sum.splits)

text \<open>When lines 65-89 raise nothing, the tag is \<open>STATIC\<close>, the class is the static-fee
  class, and the keyword arguments went through the four steps in order.\<close>

lemma normalize_kwargs_Inr:
  "normalize_kwargs E new_sig ap kw = Inr (cls, kw') \<longleftrightarrow>
     get_transaction_type E (dict_get kw ''type'') = Inr (STATIC E) \<and> cls = StaticFeeTransaction \<and>
     (\<exists>kw3. parse_chain_id (set_required_confirmations ap (kw(''type'' \<mapsto> member_value E (STATIC E))))
              = Inr kw3 \<and>
            assemble_signature new_sig (hash_to_data kw3) = Inr kw')"
  by (auto simp: normalize_kwargs_def Let_def get_transaction_cls_Inr split: sum.splits)

lemma create_transaction_empty:
  "create_transaction ape_TransactionType integer_v_signature (\<lambda>cls kw. Inr (cls, kw ''type'')) None Map.empty =
     Inr (StaticFeeTransaction, Some (IntV 0))"
  by (simp add: model_defs)

lemma normalize_kwargs_empty:
  "normalize_kwargs ape_TransactionType integer_v_signature (Some 2) Map.empty =
     Inr (StaticFeeTransaction, [''type'' \<mapsto> IntV 0, ''required_confirmations'' \<mapsto> IntV 2])"
  by (simp add: model_defs)

lemma normalize_signed_kwargs:
  "normalize_kwargs ape_TransactionType integer_v_signature None signed_kwargs =
     Inr (StaticFeeTransaction, signed_kwargs_normalized)"
proof -
  have "int_base16 ''0x45'' = Inr 69" by code_simp
  then show ?thesis
    by (simp add: model_defs signed_kwargs_def signed_kwargs_normalized_def)
qed

section \<open>The string looked up for an integer type\<close>

lemma str_replace_no_x: "CHR ''x'' \<notin> set s \<Longrightarrow> str_replace s ''0x'' new = s"
proof (induction s)
  case Nil
  then show ?case by simp
next
  case (Cons c cs)
  have "take 2 (c # cs) \<noteq> ''0x''"
  proof (cases cs)
    case Nil
    then show ?thesis by simp
  next
    case (Cons d ds)
    with Cons.prems show ?thesis by auto
  qed
  with Cons show ?case by auto
qed

lemma digit_char_decimal: "d < 10 \<Longrightarrow> digit_char d \<in> set ''0123456789''"
proof -
  assume "d < 10"
  then have "d \<in> set [0..<10]" by simp
  then show ?thesis unfolding digit_char_def by (simp add: upt_conv_Cons) auto
qed

lemma digit_char_nonzero: "0 < d \<Longrightarrow> d < 16 \<Longrightarrow> digit_char d \<noteq> CHR ''0''"
proof -
  assume "0 < d" "d < 16"
  then have "d \<in> set [1..<16]" by simp
  then show ?thesis unfolding digit_char_def by (simp add: upt_conv_Cons) auto
qed

lemma str_nat_chars: "set (str_nat n) \<subseteq> set ''0123456789''"
proof (induction n rule: str_nat.induct)
  case (1 n)
  show ?case
  proof (cases "n < 10")
    case True
    have "str_nat n = [digit_char n]" using True by (simp add: str_nat.simps)
    then show ?thesis using digit_char_decimal [OF True] by simp
  next
    case False
    have e: "str_nat n = str_nat (n div 10) @ [digit_char (n mod 10)]"
      using False by (subst str_nat.simps) simp
    have "n mod 10 < 10" by simp
    from digit_char_decimal [OF this] 1 [OF False] show ?thesis
      unfolding e by simp
  qed
qed

lemma str_nat_nonempty: "str_nat n \<noteq> []"
  by (subst str_nat.simps) simp

lemma str_nat_length_ge2: "10 \<le> n \<Longrightarrow> 2 \<le> length (str_nat n)"
proof -
  assume "10 \<le> n"
  then have e: "str_nat n = str_nat (n div 10) @ [digit_char (n mod 10)]"
    by (subst str_nat.simps) simp
  have "1 \<le> length (str_nat (n div 10))"
    using str_nat_nonempty [of "n div 10"] by (cases "str_nat (n div 10)") simp_all
  then show ?thesis unfolding e by simp
qed

lemma str_nat_no_x: "CHR ''x'' \<notin> set (str_nat n)" "CHR ''X'' \<notin> set (str_nat n)"
proof -
  have a: "CHR ''x'' \<notin> set ''0123456789''" and b: "CHR ''X'' \<notin> set ''0123456789''"
    by simp_all
  show "CHR ''x'' \<notin> set (str_nat n)" using a str_nat_chars [of n] by blast
  show "CHR ''X'' \<notin> set (str_nat n)" using b str_nat_chars [of n] by blast
qed

lemma str_int_no_x: "CHR ''x'' \<notin> set (str_int n)" "CHR ''X'' \<notin> set (str_int n)"
  by (simp_all add: str_int_def str_nat_no_x)

lemma str_int_nonempty: "str_int n \<noteq> []"
  by (simp add: str_int_def str_nat_nonempty)

text \<open>Line 101 and lines 105-109 on an integer: the decimal digits behind \<^verbatim>\<open>0x0\<close>. The
  padding of line 107 never applies, since the string has at least two characters.\<close>

lemma type_key_int: "type_key E (IntV n) = Inr (''0x0'' @ str_int n)"
proof -
  let ?s = "CHR ''0'' # str_int n"
  have nx: "CHR ''x'' \<notin> set ?s" by (simp add: str_int_no_x)
  obtain c cs where cs: "str_int n = c # cs"
    using str_int_nonempty [of n] by (cases "str_int n") auto
  have r: "str_replace ?s ''0x'' [] = ?s" using nx by (rule str_replace_no_x)
  have pad: "pad_single_digit ?s = ?s"
    unfolding pad_single_digit_def Let_def r by (simp add: cs)
  have "c \<noteq> CHR ''x''" "c \<noteq> CHR ''X''" using str_int_no_x [of n] unfolding cs by auto
  then have "\<not> is_0x_prefixed ?s" by (simp add: is_0x_prefixed_def cs)
  then have "add_0x_prefix ?s = ''0x0'' @ str_int n" by (simp add: add_0x_prefix_def)
  then show ?thesis unfolding type_key_def Let_def by (simp add: pad)
qed

lemma hex_nat_nonempty: "hex_nat n \<noteq> []"
  by (subst hex_nat.simps) simp

lemma hex_nat_hd: "0 < n \<Longrightarrow> hd (hex_nat n) \<noteq> CHR ''0''"
proof (induction n rule: hex_nat.induct)
  case (1 n)
  show ?case
  proof (cases "n < 16")
    case True
    then have "hex_nat n = [digit_char n]" by (simp add: hex_nat.simps)
    then show ?thesis using digit_char_nonzero [OF "1.prems" True] by simp
  next
    case False
    then have e: "hex_nat n = hex_nat (n div 16) @ [digit_char (n mod 16)]"
      by (subst hex_nat.simps) simp
    from False have "0 < n div 16" by simp
    from "1.IH" [OF False this] show ?thesis
      unfolding e using hex_nat_nonempty [of "n div 16"] by simp
  qed
qed

lemma hex_nat_length_ge2: "16 \<le> n \<Longrightarrow> 2 \<le> length (hex_nat n)"
proof -
  assume "16 \<le> n"
  then have e: "hex_nat n = hex_nat (n div 16) @ [digit_char (n mod 16)]"
    by (subst hex_nat.simps) simp
  have "1 \<le> length (hex_nat (n div 16))"
    using hex_nat_nonempty [of "n div 16"] by (cases "hex_nat (n div 16)") simp_all
  then show ?thesis unfolding e by simp
qed

lemma spec_zero_padded_hex_small:
  "1 \<le> n \<Longrightarrow> n \<le> 9 \<Longrightarrow> spec_zero_padded_hex n = ''0x0'' @ str_int n"
proof -
  assume a: "1 \<le> n" "n \<le> 9"
  then have h: "hex_nat (nat \<bar>n\<bar>) = [digit_char (nat n)]" by (simp add: hex_nat.simps)
  from a have s: "str_int n = [digit_char (nat n)]" by (simp add: str_int_def str_nat.simps)
  from a show ?thesis unfolding spec_zero_padded_hex_def Let_def h s by simp
qed

lemma spec_zero_padded_hex_other:
  assumes "n < 0 \<or> 10 \<le> n"
  shows "spec_zero_padded_hex n \<noteq> ''0x0'' @ str_int n"
proof -
  consider "n < 0" | "10 \<le> n" "n < 16" | "16 \<le> n" using assms by linarith
  then show ?thesis
  proof cases
    case 1
    then show ?thesis by (simp add: spec_zero_padded_hex_def Let_def)
  next
    case 2
    then have h: "hex_nat (nat \<bar>n\<bar>) = [digit_char (nat n)]" by (simp add: hex_nat.simps)
    from 2 have "2 \<le> length (str_nat (nat n))" by (intro str_nat_length_ge2) simp
    then have "length (spec_zero_padded_hex n) \<noteq> length (''0x0'' @ str_int n)"
      using 2 unfolding spec_zero_padded_hex_def Let_def h by (simp add: str_int_def)
    then show ?thesis by metis
  next
    case 3
    then have l: "2 \<le> length (hex_nat (nat \<bar>n\<bar>))" by (intro hex_nat_length_ge2) simp
    from 3 have "hd (hex_nat (nat \<bar>n\<bar>)) \<noteq> CHR ''0''" by (intro hex_nat_hd) simp
    then have "hex_nat (nat \<bar>n\<bar>) \<noteq> CHR ''0'' # str_int n" by auto
    then show ?thesis using 3 l unfolding spec_zero_padded_hex_def Let_def by simp
  qed
qed

lemma str_int_5_10: "str_int 5 = ''5''" "str_int 10 = ''10''"
  by code_simp+

lemma spec_zero_padded_hex_5_10:
  "spec_zero_padded_hex 5 = ''0x05''" "spec_zero_padded_hex 10 = ''0x0a''"
  by code_simp+

section \<open>Single hexadecimal digits\<close>

lemma hex_digit_chars:
  assumes "hex_digit_value d \<noteq> None"
  shows "d \<noteq> CHR ''x''" "d \<noteq> CHR ''X''"
  using assms by (auto simp: hex_digit_value_def)

lemma type_key_single_digit:
  assumes "d \<noteq> CHR ''x''" "d \<noteq> CHR ''X''"
  shows "type_key E (StrV (''0x'' @ [d])) = Inr (''0x0'' @ [d])"
    and "type_key E (StrV [d]) = Inr (''0x0'' @ [d])"
    and "type_key E (StrV (''0x0'' @ [d])) = Inr (''0x0'' @ [d])"
    and "type_key E (StrV (''0'' @ [d])) = Inr (''0x0'' @ [d])"
  using assms
  by (simp_all add: type_key_def pad_single_digit_def Let_def rstrip_def add_0x_prefix_def
      is_0x_prefixed_def)

section \<open>\<open>int(s, 16)\<close> on strings of hexadecimal digits\<close>

lemma is_hex_digit_iff: "is_hex_digit c \<longleftrightarrow> c \<in> set ''0123456789abcdefABCDEF''"
  by (simp add: is_hex_digit_def hex_digit_value_def upt_conv_Cons)

lemma hex_digit_not_special:
  assumes "is_hex_digit c"
  shows "\<not> is_space c" "c \<noteq> CHR ''+''" "c \<noteq> CHR ''-''" "c \<noteq> CHR ''_''"
    "c \<noteq> CHR ''x''" "c \<noteq> CHR ''X''"
  using assms unfolding is_hex_digit_iff is_space_def by auto

lemma scan_hex_digits:
  "\<forall>c\<in>set ds. is_hex_digit c \<Longrightarrow> scan_hex False acc ds = Some (hex_value acc ds, [])"
proof (induction ds arbitrary: acc)
  case Nil
  then show ?case by simp
next
  case (Cons c cs)
  then have c: "is_hex_digit c" by simp
  then obtain d where d: "hex_digit_value c = Some d" by (auto simp: is_hex_digit_def)
  from c have "c \<noteq> CHR ''_''" by (rule hex_digit_not_special)
  with d Cons show ?case by simp
qed

text \<open>A non-empty string of hexadecimal digits, with or without the prefix \<^verbatim>\<open>0x\<close>, is
  read as its positional value in base 16.\<close>

lemma int_base16_digits:
  assumes "ds \<noteq> []" and "\<forall>c\<in>set ds. is_hex_digit c"
  shows "int_base16 ds = Inr (hex_value 0 ds)"
    and "int_base16 (''0x'' @ ds) = Inr (hex_value 0 ds)"
proof -
  from assms obtain c cs where ds: "ds = c # cs" by (cases ds) auto
  with assms have c: "is_hex_digit c" by simp
  note sp = hex_digit_not_special [OF c]
  have x: "take 2 ds \<noteq> ''0x''" "take 2 ds \<noteq> ''0X''"
  proof -
    show "take 2 ds \<noteq> ''0x''"
    proof (cases cs)
      case Nil
      then show ?thesis using ds by simp
    next
      case (Cons c' cs')
      with assms ds have "is_hex_digit c'" by simp
      from hex_digit_not_special(5) [OF this] show ?thesis using ds Cons by simp
    qed
    show "take 2 ds \<noteq> ''0X''"
    proof (cases cs)
      case Nil
      then show ?thesis using ds by simp
    next
      case (Cons c' cs')
      with assms ds have "is_hex_digit c'" by simp
      from hex_digit_not_special(6) [OF this] show ?thesis using ds Cons by simp
    qed
  qed
  have t1: "take 1 ds = [c]" using ds by simp
  have dw: "dropWhile is_space ds = ds" using ds sp(1) by simp
  show "int_base16 ds = Inr (hex_value 0 ds)"
    unfolding int_base16_def Let_def dw using x t1 sp scan_hex_digits [OF assms(2)] assms(1)
    by simp
  have dw2: "dropWhile is_space (''0x'' @ ds) = ''0x'' @ ds" by (simp add: is_space_def)
  show "int_base16 (''0x'' @ ds) = Inr (hex_value 0 ds)"
    unfolding int_base16_def Let_def dw2 using t1 sp scan_hex_digits [OF assms(2)] assms(1)
    by simp
qed

lemma int_base16_error: "int_base16 s = Inl e \<Longrightarrow> e = ValueError"
  by (auto simp: int_base16_def Let_def split: if_splits option.splits prod.splits)

lemma int_base16_examples:
  "int_base16 ''0x45'' = Inr 69" "int_base16 ''0xzz'' = Inl ValueError"
  by code_simp+

lemma parse_chain_id_str:
  "kw ''chainId'' = Some (StrV s) \<Longrightarrow>
     parse_chain_id kw =
       (case int_base16 s of Inl e \<Rightarrow> Inl e | Inr n \<Rightarrow> Inr (kw(''chainId'' \<mapsto> IntV n)))"
  by (simp add: parse_chain_id_def dict_get_def)

text \<open>Lines 84-89 raise the first error among \<open>bytes(r)\<close>, \<open>bytes(s)\<close> and the
  constructor.\<close>

lemma assemble_signature_error:
  "kw ''v'' = Some v \<and> kw ''r'' = Some r \<and> kw ''s'' = Some s \<and>
     (py_bytes r = Inl e \<or>
      py_bytes r = Inr rb \<and> py_bytes s = Inl e \<or>
      py_bytes r = Inr rb \<and> py_bytes s = Inr sb \<and> new_sig v rb sb = Inl e) \<Longrightarrow>
   assemble_signature new_sig kw = Inl e"
  by (auto simp: assemble_signature_def)

text \<open>Lines 65-82 leave the fields \<open>v\<close>, \<open>r\<close>, \<open>s\<close> and \<open>signature\<close> as the caller
  passed them.\<close>

lemma signature_fields_before:
  assumes "parse_chain_id (set_required_confirmations ap (kw0(''type'' \<mapsto> x))) = Inr kw3"
    and "k \<in> {''v'', ''r'', ''s'', ''signature''}"
  shows "hash_to_data kw3 k = kw0 k"
proof -
  from assms(2) have ks: "k \<noteq> ''hash''" "k \<noteq> ''data''" "k \<noteq> ''chainId''"
    "k \<noteq> ''required_confirmations''" "k \<noteq> ''type''" by auto
  have "hash_to_data kw3 k = kw3 k"
    using ks by (simp add: hash_to_data_other)
  also have "\<dots> = set_required_confirmations ap (kw0(''type'' \<mapsto> x)) k"
    using parse_chain_id_other [OF assms(1) ks(3)] .
  also have "\<dots> = kw0 k"
    using ks by (simp add: set_required_confirmations_other)
  finally show ?thesis .
qed

lemma parse_chain_id_succeeds:
  "\<forall>c. kw ''chainId'' = Some (StrV c) \<longrightarrow> (\<exists>n. int_base16 c = Inr n) \<Longrightarrow>
     \<exists>kw3. parse_chain_id kw = Inr kw3"
  by (auto simp: parse_chain_id_def dict_get_def split: option.splits pyval.splits sum.splits)

section \<open>Properties of type resolution and class selection\<close>

text \<open>
  Claim C7. For every absent or falsy type input (\<^verbatim>\<open>None\<close>, the integer 0, the empty
  string, the empty byte sequence; \<open>falsy_cases\<close> shows that these are all of them),
  \<open>_get_transaction_type\<close> returns the tag \<open>STATIC\<close> at once (lines 95-96).
\<close>

theorem falsy_type_is_STATIC:
  "falsy ty \<Longrightarrow> get_transaction_type E ty = Inr (STATIC E)"
  by (simp add: get_transaction_type_def)

theorem falsy_type_is_STATIC_witness:
  "falsy (IntV 0) \<and> get_transaction_type ape_TransactionType (IntV 0) = Inr TT_STATIC"
  using falsy_type_is_STATIC [of "IntV 0" ape_TransactionType]
  by (simp add: ape_TransactionType_def)

text \<open>
  Claim C5. \<open>_get_transaction_cls\<close> applied to \<open>STATIC\<close> returns the static-fee transaction
  class; applied to any other tag it raises \<open>ApePolygonZkEVMError\<close>, and the message holds
  the text of the offending tag between quotation marks.
\<close>

theorem get_transaction_cls_static_or_error:
  "get_transaction_cls E (STATIC E) = Inr StaticFeeTransaction \<and>
   (t \<noteq> STATIC E \<longrightarrow>
      get_transaction_cls E t =
        Inl (ApePolygonZkEVMError
              (''Transaction type '' @ [CHR 0x27] @ member_str E t @ [CHR 0x27] @ '' not supported.'')))"
  by (simp add: get_transaction_cls_def transaction_types_def not_supported_message_def)

theorem get_transaction_cls_static_or_error_witness:
  "get_transaction_cls ape_TransactionType TT_STATIC = Inr StaticFeeTransaction \<and>
   TT_DYNAMIC \<noteq> TT_STATIC \<and>
   get_transaction_cls ape_TransactionType TT_DYNAMIC =
     Inl (ApePolygonZkEVMError
           (''Transaction type '' @ [CHR 0x27] @ ''TransactionType.DYNAMIC'' @ [CHR 0x27] @ '' not supported.''))"
  using get_transaction_cls_static_or_error [of ape_TransactionType TT_DYNAMIC]
  by (simp add: ape_TransactionType_def)

text \<open>
  Claim C1, as amended. The claim says that type resolution never raises and that only class
  selection validates the tag. It does raise: line 109 calls \<^verbatim>\<open>TransactionType(...)\<close>, which
  raises \<open>ValueError\<close> when no member has the string as its value. What holds: for a truthy
  integer, byte sequence or string, lines 98-107 always produce a string \<open>k\<close>, and type
  resolution returns the member whose value is \<open>k\<close> when there is one and raises
  \<open>ValueError\<close> itself when there is none.
\<close>

theorem type_resolution_validates_membership:
  "\<not> falsy ty \<Longrightarrow> (\<forall>v r s. ty \<noteq> TransactionSignature v r s) \<Longrightarrow>
     \<exists>k. type_key E ty = Inr k \<and>
         get_transaction_type E ty =
           (case by_value E (StrV k) of None \<Rightarrow> Inl ValueError | Some t \<Rightarrow> Inr t)"
  by (cases ty) (auto simp: get_transaction_type_def type_key_def TransactionType_call_def)

theorem type_resolution_validates_membership_witness:
  "\<not> falsy (IntV 3) \<and> (\<forall>v r s. IntV 3 \<noteq> TransactionSignature v r s) \<and>
   type_key ape_TransactionType (IntV 3) = Inr ''0x03'' \<and>
   by_value ape_TransactionType (StrV ''0x03'') = None \<and>
   get_transaction_type ape_TransactionType (IntV 3) = Inl ValueError \<and>
   \<not> falsy (BytesV [2]) \<and> (\<forall>v r s. BytesV [2] \<noteq> TransactionSignature v r s) \<and>
   type_key hex_TransactionType (BytesV [2]) = Inr ''0x02'' \<and>
   get_transaction_type hex_TransactionType (BytesV [2]) = Inr TT_DYNAMIC"
proof -
  have a: "type_key ape_TransactionType (IntV 3) = Inr ''0x03''" by code_simp
  have b: "type_key hex_TransactionType (BytesV [2]) = Inr ''0x02''" by code_simp
  show ?thesis
    using type_resolution_validates_membership [of "IntV 3" ape_TransactionType]
      type_resolution_validates_membership [of "BytesV [2]" hex_TransactionType] a b
    by (simp add: ape_TransactionType_def ape_tag_by_value_def hex_TransactionType_def
        hex_tag_by_value_def)
qed

text \<open>The claim as stated fails: the integer 3 and the string \<^verbatim>\<open>0x7f\<close> make type
  resolution itself raise, before class selection is reached.\<close>

theorem type_resolution_raises_counterexample:
  "get_transaction_type ape_TransactionType (IntV 3) = Inl ValueError \<and>
   get_transaction_type ape_TransactionType (StrV ''0x7f'') = Inl ValueError"
  by code_simp

text \<open>
  Claim C2, as amended. The claim says that a non-zero integer is formatted as a zero-padded
  one-byte hexadecimal string. Line 101 writes the decimal digits behind a zero instead: for
  every non-zero \<open>n\<close> the string looked up is \<^verbatim>\<open>0x0\<close> followed by \<^verbatim>\<open>str(n)\<close>, and this is
  the zero-padded hexadecimal string of \<open>n\<close> exactly when \<open>1 \<le> n \<le> 9\<close>.
\<close>

theorem integer_type_key_decimal:
  "n \<noteq> 0 \<Longrightarrow>
     type_key E (IntV n) = Inr (''0x0'' @ str_int n) \<and>
     get_transaction_type E (IntV n) = TransactionType_call E (StrV (''0x0'' @ str_int n)) \<and>
     (type_key E (IntV n) = Inr (spec_zero_padded_hex n) \<longleftrightarrow> 1 \<le> n \<and> n \<le> 9)"
proof (intro conjI)
  assume n: "n \<noteq> 0"
  show "type_key E (IntV n) = Inr (''0x0'' @ str_int n)" by (rule type_key_int)
  show "get_transaction_type E (IntV n) = TransactionType_call E (StrV (''0x0'' @ str_int n))"
    using n by (simp add: get_transaction_type_def type_key_int)
  show "type_key E (IntV n) = Inr (spec_zero_padded_hex n) \<longleftrightarrow> 1 \<le> n \<and> n \<le> 9"
  proof (cases "1 \<le> n \<and> n \<le> 9")
    case True
    then show ?thesis by (simp add: type_key_int spec_zero_padded_hex_small)
  next
    case False
    with n have "n < 0 \<or> 10 \<le> n" by linarith
    from spec_zero_padded_hex_other [OF this] False show ?thesis
      unfolding type_key_int by auto
  qed
qed

theorem integer_type_key_decimal_witness:
  "(5::int) \<noteq> 0 \<and> type_key ape_TransactionType (IntV 5) = Inr ''0x05'' \<and>
   get_transaction_type ape_TransactionType (IntV 5) = Inl ValueError \<and>
   type_key ape_TransactionType (IntV 5) = Inr (spec_zero_padded_hex 5) \<and>
   (10::int) \<noteq> 0 \<and> type_key ape_TransactionType (IntV 10) = Inr ''0x010'' \<and>
   type_key ape_TransactionType (IntV 10) \<noteq> Inr (spec_zero_padded_hex 10)"
  using integer_type_key_decimal [of 5 ape_TransactionType]
    integer_type_key_decimal [of 10 ape_TransactionType]
  by (simp add: str_int_5_10 spec_zero_padded_hex_5_10 TransactionType_call_def
      ape_TransactionType_def ape_tag_by_value_def)

text \<open>The claim as stated fails at \<open>n = 10\<close>: the string looked up is \<^verbatim>\<open>0x010\<close>, the
  zero-padded hexadecimal string is \<^verbatim>\<open>0x0a\<close>.\<close>

theorem integer_type_key_counterexample:
  "type_key ape_TransactionType (IntV 10) = Inr ''0x010'' \<and> spec_zero_padded_hex 10 = ''0x0a''"
  by code_simp

text \<open>
  Claim C4, as amended. For a string that is one hexadecimal digit \<open>d\<close>, with or without the
  prefix \<^verbatim>\<open>0x\<close>, type resolution pads the digit with a zero and gives the result of the
  padded two-digit form: all four spellings are looked up as \<^verbatim>\<open>0x0d\<close>, which yields the
  member with that value or \<open>ValueError\<close>. The integer 0 resolves to \<open>STATIC\<close> without a
  lookup. The strings \<^verbatim>\<open>0x0\<close> and \<^verbatim>\<open>0\<close> are looked up as \<^verbatim>\<open>0x00\<close>: they resolve to
  \<open>STATIC\<close> exactly when the string \<^verbatim>\<open>0x00\<close> is the value of \<open>STATIC\<close>, and raise
  \<open>ValueError\<close> when no member has that value. The claim says that they resolve to
  \<open>STATIC\<close> without that condition.
\<close>

theorem single_digit_padding:
  "hex_digit_value d \<noteq> None \<Longrightarrow>
     get_transaction_type E (StrV (''0x'' @ [d])) = TransactionType_call E (StrV (''0x0'' @ [d])) \<and>
     get_transaction_type E (StrV [d]) = TransactionType_call E (StrV (''0x0'' @ [d])) \<and>
     get_transaction_type E (StrV (''0x0'' @ [d])) = TransactionType_call E (StrV (''0x0'' @ [d])) \<and>
     get_transaction_type E (StrV (''0'' @ [d])) = TransactionType_call E (StrV (''0x0'' @ [d])) \<and>
     get_transaction_type E (IntV 0) = Inr (STATIC E) \<and>
     (get_transaction_type E (StrV ''0x0'') = Inr (STATIC E)
        \<longleftrightarrow> by_value E (StrV ''0x00'') = Some (STATIC E)) \<and>
     (get_transaction_type E (StrV ''0'') = Inr (STATIC E)
        \<longleftrightarrow> by_value E (StrV ''0x00'') = Some (STATIC E)) \<and>
     (by_value E (StrV ''0x00'') = None \<longrightarrow>
        get_transaction_type E (StrV ''0x0'') = Inl ValueError \<and>
        get_transaction_type E (StrV ''0'') = Inl ValueError)"
proof -
  assume "hex_digit_value d \<noteq> None"
  note d = hex_digit_chars [OF this]
  note k = type_key_single_digit [OF d, simplified]
  have z: "type_key E (StrV ''0x0'') = Inr ''0x00''" "type_key E (StrV ''0'') = Inr ''0x00''"
    using type_key_single_digit(1) [of "CHR ''0''" E] type_key_single_digit(2) [of "CHR ''0''" E]
    by simp_all
  have g: "get_transaction_type E (StrV ''0x0'') = TransactionType_call E (StrV ''0x00'')"
    "get_transaction_type E (StrV ''0'') = TransactionType_call E (StrV ''0x00'')"
    by (simp_all add: z get_transaction_type_def)
  have c: "TransactionType_call E (StrV ''0x00'') = Inr (STATIC E)
      \<longleftrightarrow> by_value E (StrV ''0x00'') = Some (STATIC E)"
    by (simp add: TransactionType_call_def split: option.splits)
  have n: "by_value E (StrV ''0x00'') = None
      \<longrightarrow> TransactionType_call E (StrV ''0x00'') = Inl ValueError"
    by (simp add: TransactionType_call_def)
  have four:
    "get_transaction_type E (StrV (''0x'' @ [d])) = TransactionType_call E (StrV (''0x0'' @ [d]))"
    "get_transaction_type E (StrV [d]) = TransactionType_call E (StrV (''0x0'' @ [d]))"
    "get_transaction_type E (StrV (''0x0'' @ [d])) = TransactionType_call E (StrV (''0x0'' @ [d]))"
    "get_transaction_type E (StrV (''0'' @ [d])) = TransactionType_call E (StrV (''0x0'' @ [d]))"
    by (simp_all add: k get_transaction_type_def)
  have zero: "get_transaction_type E (IntV 0) = Inr (STATIC E)"
    by (simp add: get_transaction_type_def)
  from four zero c n show ?thesis
    unfolding g by blast
qed

theorem single_digit_padding_witness:
  "hex_digit_value CHR ''2'' \<noteq> None \<and>
   get_transaction_type hex_TransactionType (StrV ''0x2'') = Inr TT_DYNAMIC \<and>
   get_transaction_type hex_TransactionType (StrV ''2'') = Inr TT_DYNAMIC \<and>
   get_transaction_type hex_TransactionType (StrV ''0x02'') = Inr TT_DYNAMIC \<and>
   get_transaction_type hex_TransactionType (StrV ''02'') = Inr TT_DYNAMIC \<and>
   by_value hex_TransactionType (StrV ''0x00'') = Some (STATIC hex_TransactionType) \<and>
   get_transaction_type hex_TransactionType (IntV 0) = Inr TT_STATIC \<and>
   get_transaction_type hex_TransactionType (StrV ''0x0'') = Inr TT_STATIC \<and>
   get_transaction_type hex_TransactionType (StrV ''0'') = Inr TT_STATIC \<and>
   by_value ape_TransactionType (StrV ''0x00'') = None \<and>
   get_transaction_type ape_TransactionType (StrV ''0x2'') = Inl ValueError \<and>
   get_transaction_type ape_TransactionType (StrV ''0x02'') = Inl ValueError \<and>
   get_transaction_type ape_TransactionType (IntV 0) = Inr TT_STATIC \<and>
   get_transaction_type ape_TransactionType (StrV ''0x0'') = Inl ValueError \<and>
   get_transaction_type ape_TransactionType (StrV ''0'') = Inl ValueError"
  using single_digit_padding [of "CHR ''2''" hex_TransactionType]
    single_digit_padding [of "CHR ''2''" ape_TransactionType]
  by (simp add: hex_digit_value_def TransactionType_call_def ape_TransactionType_def
      ape_tag_by_value_def hex_TransactionType_def hex_tag_by_value_def)

text \<open>The claim as stated fails with the integer-valued enumeration: the integer 0 resolves
  to \<open>STATIC\<close>, the strings \<^verbatim>\<open>0x0\<close> and \<^verbatim>\<open>0\<close> raise \<open>ValueError\<close>.\<close>

theorem single_digit_padding_counterexample:
  "get_transaction_type ape_TransactionType (IntV 0) = Inr TT_STATIC \<and>
   get_transaction_type ape_TransactionType (StrV ''0x0'') = Inl ValueError \<and>
   get_transaction_type ape_TransactionType (StrV ''0'') = Inl ValueError"
  by code_simp

section \<open>Properties of \<open>create_transaction\<close>\<close>

text \<open>
  Claim C10. Whenever \<open>create_transaction\<close> returns a transaction instead of raising, the
  resolved tag is \<open>STATIC\<close> and the transaction is the one \<^verbatim>\<open>parse_obj\<close> of the static-fee
  class built: no other class is ever selected.
\<close>

theorem create_transaction_only_static:
  "create_transaction E new_sig parse_obj ap kw = Inr txn \<Longrightarrow>
     get_transaction_type E (dict_get kw ''type'') = Inr (STATIC E) \<and>
     (\<exists>kw'. normalize_kwargs E new_sig ap kw = Inr (StaticFeeTransaction, kw') \<and>
            parse_obj StaticFeeTransaction kw' = Inr txn)"
  by (auto simp: create_transaction_def normalize_kwargs_Inr split: sum.splits prod.splits)

theorem create_transaction_only_static_witness:
  "create_transaction ape_TransactionType integer_v_signature (\<lambda>cls kw. Inr (cls, kw ''type'')) None Map.empty =
     Inr (StaticFeeTransaction, Some (IntV 0)) \<and>
   get_transaction_type ape_TransactionType (dict_get Map.empty ''type'') = Inr TT_STATIC \<and>
   (\<exists>kw'. normalize_kwargs ape_TransactionType integer_v_signature None Map.empty = Inr (StaticFeeTransaction, kw') \<and>
          Inr (StaticFeeTransaction, kw' ''type'') =
            (Inr (StaticFeeTransaction, Some (IntV 0)) :: error + txn_class \<times> pyval option))"
  using create_transaction_only_static [OF create_transaction_empty] create_transaction_empty
  by (simp add: ape_TransactionType_def)

text \<open>
  Claim C3. Whenever \<open>create_transaction\<close> succeeds, the field \<open>type\<close> of the keyword
  arguments handed to \<^verbatim>\<open>parse_obj\<close> is present and holds the \<^verbatim>\<open>.value\<close> of the resolved
  tag (line 66), whatever the caller passed as \<open>type\<close>; no later step writes that field.
\<close>

theorem create_transaction_type_field:
  "create_transaction E new_sig parse_obj ap kw = Inr txn \<Longrightarrow>
     \<exists>t cls kw'. get_transaction_type E (dict_get kw ''type'') = Inr t \<and>
                normalize_kwargs E new_sig ap kw = Inr (cls, kw') \<and>
                kw' ''type'' = Some (member_value E t) \<and>
                parse_obj cls kw' = Inr txn"
proof -
  assume h: "create_transaction E new_sig parse_obj ap kw = Inr txn"
  then obtain cls kw' where n: "normalize_kwargs E new_sig ap kw = Inr (cls, kw')"
    and p: "parse_obj cls kw' = Inr txn"
    by (auto simp: create_transaction_def split: sum.splits prod.splits)
  from n obtain kw3 where
    t: "get_transaction_type E (dict_get kw ''type'') = Inr (STATIC E)" and
    a: "parse_chain_id (set_required_confirmations ap (kw(''type'' \<mapsto> member_value E (STATIC E))))
          = Inr kw3"
    and b: "assemble_signature new_sig (hash_to_data kw3) = Inr kw'"
    unfolding normalize_kwargs_Inr by blast
  have "kw' ''type'' = hash_to_data kw3 ''type''"
    using assemble_signature_other [OF b] by simp
  also have "\<dots> = kw3 ''type''"
    by (simp add: hash_to_data_other)
  also have "\<dots> = set_required_confirmations ap (kw(''type'' \<mapsto> member_value E (STATIC E))) ''type''"
    using parse_chain_id_other [OF a] by simp
  also have "\<dots> = Some (member_value E (STATIC E))"
    by (simp add: set_required_confirmations_other)
  finally show ?thesis using t n p by blast
qed

theorem create_transaction_type_field_witness:
  "\<exists>t cls kw'. get_transaction_type ape_TransactionType (dict_get Map.empty ''type'') = Inr t \<and>
      normalize_kwargs ape_TransactionType integer_v_signature None Map.empty = Inr (cls, kw') \<and>
      kw' ''type'' = Some (member_value ape_TransactionType t) \<and>
      (Inr (cls, kw' ''type'') :: error + txn_class \<times> pyval option) =
         Inr (StaticFeeTransaction, Some (IntV 0))"
  using create_transaction_type_field [OF create_transaction_empty] .

text \<open>
  Claim C6. When lines 65-89 succeed: if \<open>required_confirmations\<close> was absent or \<^verbatim>\<open>None\<close>
  in the caller's arguments, the field holds the active provider's configured number of
  confirmations, or 0 when no provider is active; otherwise it is what the caller passed.
\<close>

theorem required_confirmations_default:
  "normalize_kwargs E new_sig ap kw = Inr (cls, kw') \<Longrightarrow>
     kw' ''required_confirmations'' =
       (if kw ''required_confirmations'' = None \<or> kw ''required_confirmations'' = Some NoneV
        then Some (IntV (case ap of None \<Rightarrow> 0 | Some rc \<Rightarrow> rc))
        else kw ''required_confirmations'')"
proof -
  assume n: "normalize_kwargs E new_sig ap kw = Inr (cls, kw')"
  let ?kw1 = "kw(''type'' \<mapsto> member_value E (STATIC E))"
  from n obtain kw3 where
    a: "parse_chain_id (set_required_confirmations ap ?kw1) = Inr kw3"
    and b: "assemble_signature new_sig (hash_to_data kw3) = Inr kw'"
    unfolding normalize_kwargs_Inr by blast
  have "kw' ''required_confirmations'' = hash_to_data kw3 ''required_confirmations''"
    using assemble_signature_other [OF b] by simp
  also have "\<dots> = kw3 ''required_confirmations''"
    by (simp add: hash_to_data_other)
  also have "\<dots> = set_required_confirmations ap ?kw1 ''required_confirmations''"
    using parse_chain_id_other [OF a] by simp
  also have "\<dots> =
      (if kw ''required_confirmations'' = None \<or> kw ''required_confirmations'' = Some NoneV
       then Some (IntV (case ap of None \<Rightarrow> 0 | Some rc \<Rightarrow> rc))
       else kw ''required_confirmations'')"
    by (auto simp: set_required_confirmations_def Let_def dom_def)
  finally show ?thesis .
qed

theorem required_confirmations_default_witness:
  "normalize_kwargs ape_TransactionType integer_v_signature (Some 2) Map.empty =
     Inr (StaticFeeTransaction, [''type'' \<mapsto> IntV 0, ''required_confirmations'' \<mapsto> IntV 2]) \<and>
   [''type'' \<mapsto> IntV 0, ''required_confirmations'' \<mapsto> IntV 2] ''required_confirmations''
     = Some (IntV 2)"
  using required_confirmations_default [OF normalize_kwargs_empty] normalize_kwargs_empty
  by simp

text \<open>
  Claim C8. When the field \<open>chainId\<close> is a string \<open>s\<close>: if lines 65-89 succeed, the field
  holds the integer \<^verbatim>\<open>int(s, 16)\<close> (the string \<^verbatim>\<open>0x45\<close> becomes 69); if \<^verbatim>\<open>int(s, 16)\<close>
  raises, which it does with \<open>ValueError\<close>, and type resolution has succeeded before,
  \<open>create_transaction\<close> raises that \<open>ValueError\<close> to its caller. The lemma
  \<open>int_base16_digits\<close> relates \<^verbatim>\<open>int(s, 16)\<close> to the positional value of the digits.
\<close>

theorem chain_id_parsed_base16:
  assumes "kw ''chainId'' = Some (StrV s)"
  shows "(normalize_kwargs E new_sig ap kw = Inr (cls, kw') \<longrightarrow>
            (\<exists>n. int_base16 s = Inr n \<and> kw' ''chainId'' = Some (IntV n))) \<and>
         (get_transaction_type E (dict_get kw ''type'') = Inr (STATIC E) \<and> int_base16 s = Inl e \<longrightarrow>
            e = ValueError \<and> create_transaction E new_sig parse_obj ap kw = Inl ValueError)"
proof (intro conjI impI)
  let ?kw2 = "set_required_confirmations ap (kw(''type'' \<mapsto> member_value E (STATIC E)))"
  have c2: "?kw2 ''chainId'' = Some (StrV s)"
    using assms by (simp add: set_required_confirmations_other)
  note pc = parse_chain_id_str [of ?kw2 s, OF c2]
  {
    assume "normalize_kwargs E new_sig ap kw = Inr (cls, kw')"
    then obtain kw3 where a: "parse_chain_id ?kw2 = Inr kw3"
      and b: "assemble_signature new_sig (hash_to_data kw3) = Inr kw'"
      unfolding normalize_kwargs_Inr by blast
    from a obtain n where n: "int_base16 s = Inr n" and kw3: "kw3 = ?kw2(''chainId'' \<mapsto> IntV n)"
      unfolding pc by (auto split: sum.splits)
    have "kw' ''chainId'' = hash_to_data kw3 ''chainId''"
      using assemble_signature_other [OF b] by simp
    also have "\<dots> = kw3 ''chainId''"
      by (simp add: hash_to_data_other)
    also have "\<dots> = Some (IntV n)"
      by (simp add: kw3)
    finally show "\<exists>n. int_base16 s = Inr n \<and> kw' ''chainId'' = Some (IntV n)"
      using n by blast
  }
  {
    assume h: "get_transaction_type E (dict_get kw ''type'') = Inr (STATIC E) \<and> int_base16 s = Inl e"
    then show e: "e = ValueError"
      by (blast dest: int_base16_error)
    from h have "parse_chain_id ?kw2 = Inl ValueError"
      unfolding pc e by simp
    with h show "create_transaction E new_sig parse_obj ap kw = Inl ValueError"
      by (simp add: create_transaction_def normalize_kwargs_def)
  }
qed

theorem chain_id_parsed_base16_witness:
  "signed_kwargs ''chainId'' = Some (StrV ''0x45'') \<and>
   normalize_kwargs ape_TransactionType integer_v_signature None signed_kwargs =
     Inr (StaticFeeTransaction, signed_kwargs_normalized) \<and>
   int_base16 ''0x45'' = Inr 69 \<and> signed_kwargs_normalized ''chainId'' = Some (IntV 69) \<and>
   [''chainId'' \<mapsto> StrV ''0xzz''] ''chainId'' = Some (StrV ''0xzz'') \<and>
   get_transaction_type ape_TransactionType (dict_get [''chainId'' \<mapsto> StrV ''0xzz''] ''type'') =
     Inr (STATIC ape_TransactionType) \<and>
   int_base16 ''0xzz'' = Inl ValueError \<and>
   create_transaction ape_TransactionType integer_v_signature (\<lambda>cls kw. Inr (cls, kw ''chainId'')) None
     [''chainId'' \<mapsto> StrV ''0xzz''] = Inl ValueError"
proof -
  have a: "signed_kwargs ''chainId'' = Some (StrV ''0x45'')"
    by (simp add: signed_kwargs_def)
  have b: "[''chainId'' \<mapsto> StrV ''0xzz''] ''chainId'' = Some (StrV ''0xzz'')"
    by simp
  have t: "get_transaction_type ape_TransactionType (dict_get [''chainId'' \<mapsto> StrV ''0xzz''] ''type'')
      = Inr (STATIC ape_TransactionType)"
    by (simp add: get_transaction_type_def dict_get_def)
  show ?thesis
    using chain_id_parsed_base16 [where kw = signed_kwargs and s = "''0x45''"
        and E = ape_TransactionType and new_sig = integer_v_signature and ap = None
        and cls = StaticFeeTransaction
        and kw' = signed_kwargs_normalized]
      chain_id_parsed_base16 [where kw = "[''chainId'' \<mapsto> StrV ''0xzz'']" and s = "''0xzz''"
        and E = ape_TransactionType and new_sig = integer_v_signature and e = ValueError
        and parse_obj = "\<lambda>cls kw. Inr (cls, kw ''chainId'')" and ap = None]
      normalize_signed_kwargs int_base16_examples a b t
    by simp
qed

text \<open>
  Claim C9, as amended. The claim says that whenever \<open>v\<close>, \<open>r\<close> and \<open>s\<close> are all present
  a field \<open>signature\<close> is added. That needs \<open>bytes(r)\<close>, \<open>bytes(s)\<close> and the constructor
  \<^verbatim>\<open>TransactionSignature\<close> to succeed. What holds, for lines 84-89 on any mapping \<open>kw\<close>:
  when the three fields are present and \<open>bytes(r)\<close>, \<open>bytes(s)\<close> and the constructor
  succeed, the step adds the field \<open>signature\<close> holding the object the constructor built
  from \<open>v\<close>, \<open>bytes(r)\<close>, \<open>bytes(s)\<close> and changes nothing else, so \<open>v\<close>, \<open>r\<close>, \<open>s\<close>
  stay; when one of the three calls raises, the step raises that error and adds nothing;
  when one of the three fields is missing, the step changes nothing. For the whole of
  \<open>create_transaction\<close>: when lines 65-89 succeed, \<open>v\<close>, \<open>r\<close> and \<open>s\<close> are what the caller
  passed, and \<open>signature\<close> is the built object when all three were passed and what the
  caller passed as \<open>signature\<close> otherwise; when type resolution and the \<open>chainId\<close> step
  succeed and one of the three calls raises, \<open>create_transaction\<close> raises that error.
\<close>

theorem signature_assembled:
  "(kw ''v'' = Some v \<and> kw ''r'' = Some r \<and> kw ''s'' = Some s \<and>
      py_bytes r = Inr rb \<and> py_bytes s = Inr sb \<and> new_sig v rb sb = Inr sig \<longrightarrow>
      assemble_signature new_sig kw = Inr (kw(''signature'' \<mapsto> sig))) \<and>
   (kw ''v'' = Some v \<and> kw ''r'' = Some r \<and> kw ''s'' = Some s \<and>
      (py_bytes r = Inl e \<or>
       py_bytes r = Inr rb \<and> py_bytes s = Inl e \<or>
       py_bytes r = Inr rb \<and> py_bytes s = Inr sb \<and> new_sig v rb sb = Inl e) \<longrightarrow>
      assemble_signature new_sig kw = Inl e) \<and>
   (kw ''v'' = None \<or> kw ''r'' = None \<or> kw ''s'' = None \<longrightarrow>
      assemble_signature new_sig kw = Inr kw) \<and>
   (normalize_kwargs E new_sig ap kws = Inr (cls, kw') \<longrightarrow>
      kw' ''v'' = kws ''v'' \<and> kw' ''r'' = kws ''r'' \<and> kw' ''s'' = kws ''s'' \<and>
      (case (kws ''v'', kws ''r'', kws ''s'') of
         (Some v0, Some r0, Some s0) \<Rightarrow>
           \<exists>rb0 sb0 sig0. py_bytes r0 = Inr rb0 \<and> py_bytes s0 = Inr sb0 \<and>
                          new_sig v0 rb0 sb0 = Inr sig0 \<and> kw' ''signature'' = Some sig0
       | _ \<Rightarrow> kw' ''signature'' = kws ''signature'')) \<and>
   (get_transaction_type E (dict_get kws ''type'') = Inr (STATIC E) \<and>
      (\<forall>c. kws ''chainId'' = Some (StrV c) \<longrightarrow> (\<exists>n. int_base16 c = Inr n)) \<and>
      kws ''v'' = Some v \<and> kws ''r'' = Some r \<and> kws ''s'' = Some s \<and>
      (py_bytes r = Inl e \<or>
       py_bytes r = Inr rb \<and> py_bytes s = Inl e \<or>
       py_bytes r = Inr rb \<and> py_bytes s = Inr sb \<and> new_sig v rb sb = Inl e) \<longrightarrow>
      create_transaction E new_sig parse_obj ap kws = Inl e)"
proof (intro conjI impI)
  assume "kw ''v'' = Some v \<and> kw ''r'' = Some r \<and> kw ''s'' = Some s \<and>
      py_bytes r = Inr rb \<and> py_bytes s = Inr sb \<and> new_sig v rb sb = Inr sig"
  then show "assemble_signature new_sig kw = Inr (kw(''signature'' \<mapsto> sig))"
    by (simp add: assemble_signature_def)
next
  assume "kw ''v'' = Some v \<and> kw ''r'' = Some r \<and> kw ''s'' = Some s \<and>
      (py_bytes r = Inl e \<or>
       py_bytes r = Inr rb \<and> py_bytes s = Inl e \<or>
       py_bytes r = Inr rb \<and> py_bytes s = Inr sb \<and> new_sig v rb sb = Inl e)"
  then show "assemble_signature new_sig kw = Inl e"
    by (rule assemble_signature_error)
next
  assume "kw ''v'' = None \<or> kw ''r'' = None \<or> kw ''s'' = None"
  then show "assemble_signature new_sig kw = Inr kw"
    by (auto simp: assemble_signature_def split: option.splits)
next
  assume n: "normalize_kwargs E new_sig ap kws = Inr (cls, kw')"
  let ?kw2 = "set_required_confirmations ap (kws(''type'' \<mapsto> member_value E (STATIC E)))"
  from n obtain kw3 where a: "parse_chain_id ?kw2 = Inr kw3"
    and b: "assemble_signature new_sig (hash_to_data kw3) = Inr kw'"
    unfolding normalize_kwargs_Inr by blast
  note pre = signature_fields_before [OF a]
  show "kw' ''v'' = kws ''v''"
    using assemble_signature_other [OF b, of "''v''"] pre by simp
  show "kw' ''r'' = kws ''r''"
    using assemble_signature_other [OF b, of "''r''"] pre by simp
  show "kw' ''s'' = kws ''s''"
    using assemble_signature_other [OF b, of "''s''"] pre by simp
  show "case (kws ''v'', kws ''r'', kws ''s'') of
         (Some v0, Some r0, Some s0) \<Rightarrow>
           \<exists>rb0 sb0 sig0. py_bytes r0 = Inr rb0 \<and> py_bytes s0 = Inr sb0 \<and>
                          new_sig v0 rb0 sb0 = Inr sig0 \<and> kw' ''signature'' = Some sig0
       | _ \<Rightarrow> kw' ''signature'' = kws ''signature''"
    using b pre [of "''v''"] pre [of "''r''"] pre [of "''s''"] pre [of "''signature''"]
    by (auto simp: assemble_signature_def split: option.splits sum.splits)
next
  assume h: "get_transaction_type E (dict_get kws ''type'') = Inr (STATIC E) \<and>
      (\<forall>c. kws ''chainId'' = Some (StrV c) \<longrightarrow> (\<exists>n. int_base16 c = Inr n)) \<and>
      kws ''v'' = Some v \<and> kws ''r'' = Some r \<and> kws ''s'' = Some s \<and>
      (py_bytes r = Inl e \<or>
       py_bytes r = Inr rb \<and> py_bytes s = Inl e \<or>
       py_bytes r = Inr rb \<and> py_bytes s = Inr sb \<and> new_sig v rb sb = Inl e)"
  let ?kw2 = "set_required_confirmations ap (kws(''type'' \<mapsto> member_value E (STATIC E)))"
  have "?kw2 ''chainId'' = kws ''chainId''"
    by (simp add: set_required_confirmations_other)
  with h have "\<forall>c. ?kw2 ''chainId'' = Some (StrV c) \<longrightarrow> (\<exists>n. int_base16 c = Inr n)"
    by simp
  then obtain kw3 where a: "parse_chain_id ?kw2 = Inr kw3"
    using parse_chain_id_succeeds by blast
  note pre = signature_fields_before [OF a]
  from h have "hash_to_data kw3 ''v'' = Some v \<and> hash_to_data kw3 ''r'' = Some r \<and>
      hash_to_data kw3 ''s'' = Some s \<and>
      (py_bytes r = Inl e \<or>
       py_bytes r = Inr rb \<and> py_bytes s = Inl e \<or>
       py_bytes r = Inr rb \<and> py_bytes s = Inr sb \<and> new_sig v rb sb = Inl e)"
    using pre [of "''v''"] pre [of "''r''"] pre [of "''s''"] by simp
  then have "assemble_signature new_sig (hash_to_data kw3) = Inl e"
    by (rule assemble_signature_error)
  with h a show "create_transaction E new_sig parse_obj ap kws = Inl e"
    by (simp add: create_transaction_def normalize_kwargs_def)
qed

theorem signature_assembled_witness:
  "assemble_signature integer_v_signature signed_kwargs =
     Inr (signed_kwargs(''signature'' \<mapsto> TransactionSignature (IntV 27) [1, 2] [3])) \<and>
   assemble_signature integer_v_signature string_signed_kwargs = Inl TypeError \<and>
   assemble_signature integer_v_signature [''v'' \<mapsto> IntV 27, ''r'' \<mapsto> BytesV [1, 2]] =
     Inr [''v'' \<mapsto> IntV 27, ''r'' \<mapsto> BytesV [1, 2]] \<and>
   normalize_kwargs ape_TransactionType integer_v_signature None signed_kwargs =
     Inr (StaticFeeTransaction, signed_kwargs_normalized) \<and>
   signed_kwargs_normalized ''v'' = Some (IntV 27) \<and>
   signed_kwargs_normalized ''r'' = Some (BytesV [1, 2]) \<and>
   signed_kwargs_normalized ''s'' = Some (BytesV [3]) \<and>
   signed_kwargs_normalized ''signature'' = Some (TransactionSignature (IntV 27) [1, 2] [3]) \<and>
   create_transaction ape_TransactionType integer_v_signature
     (\<lambda>cls kw. Inr (cls, kw ''signature'')) None string_signed_kwargs = Inl TypeError"
proof -
  have k: "signed_kwargs ''v'' = Some (IntV 27)" "signed_kwargs ''r'' = Some (BytesV [1, 2])"
    "signed_kwargs ''s'' = Some (BytesV [3])"
    by (simp_all add: signed_kwargs_def)
  have m: "string_signed_kwargs ''v'' = Some (IntV 27)"
    "string_signed_kwargs ''r'' = Some (StrV ''0xab'')"
    "string_signed_kwargs ''s'' = Some (StrV ''0xcd'')"
    "string_signed_kwargs ''chainId'' = None"
    "get_transaction_type ape_TransactionType (dict_get string_signed_kwargs ''type'')
       = Inr (STATIC ape_TransactionType)"
    by (simp_all add: string_signed_kwargs_def get_transaction_type_def dict_get_def)
  show ?thesis
    using signature_assembled [where kw = signed_kwargs and v = "IntV 27" and r = "BytesV [1, 2]"
        and s = "BytesV [3]" and rb = "[1, 2]" and sb = "[3]" and new_sig = integer_v_signature
        and sig = "TransactionSignature (IntV 27) [1, 2] [3]" and E = ape_TransactionType
        and ap = None and kws = signed_kwargs and cls = StaticFeeTransaction
        and kw' = signed_kwargs_normalized]
      signature_assembled [where kw = string_signed_kwargs and v = "IntV 27"
        and r = "StrV ''0xab''" and s = "StrV ''0xcd''" and e = TypeError
        and new_sig = integer_v_signature and E = ape_TransactionType and ap = None
        and kws = string_signed_kwargs
        and parse_obj = "\<lambda>cls kw. Inr (cls, kw ''signature'')"]
      signature_assembled [where kw = "[''v'' \<mapsto> IntV 27, ''r'' \<mapsto> BytesV [1, 2]]"
        and v = "IntV 27" and r = "BytesV [1, 2]" and s = "BytesV [3]" and rb = "[1, 2]"
        and sb = "[3]" and new_sig = integer_v_signature and e = TypeError
        and sig = "TransactionSignature (IntV 27) [1, 2] [3]" and E = ape_TransactionType
        and ap = None and kws = signed_kwargs and cls = StaticFeeTransaction
        and kw' = signed_kwargs_normalized
        and parse_obj = "\<lambda>cls kw. Inr (cls, kw ''signature'')"]
      normalize_signed_kwargs k m
    by (simp add: signed_kwargs_normalized_def integer_v_signature_def)
qed

text \<open>The claim as stated fails when \<open>r\<close> and \<open>s\<close> are passed as hexadecimal strings
  (\<open>bytes\<close> of a string raises \<open>TypeError\<close>) or as 256-bit integers (\<open>bytes\<close> of such a
  size raises \<open>OverflowError\<close>): all three fields are present, no field \<open>signature\<close> is
  added, the call raises.\<close>

theorem signature_assembled_counterexample:
  "string_signed_kwargs ''v'' = Some (IntV 27) \<and>
   string_signed_kwargs ''r'' = Some (StrV ''0xab'') \<and>
   string_signed_kwargs ''s'' = Some (StrV ''0xcd'') \<and>
   create_transaction ape_TransactionType integer_v_signature
     (\<lambda>cls kw. Inr (cls, kw ''signature'')) None string_signed_kwargs = Inl TypeError \<and>
   create_transaction ape_TransactionType integer_v_signature
     (\<lambda>cls kw. Inr (cls, kw ''signature'')) None
     [''v'' \<mapsto> IntV 27, ''r'' \<mapsto> IntV (2 ^ 255), ''s'' \<mapsto> IntV (2 ^ 254)] = Inl OverflowError"
  by (simp add: model_defs string_signed_kwargs_def)

end
